theory Spec2Isabelle
  imports Main "HOL-Library.Sublist"
begin

section \<open>Request gate: the fixed-window rate limiter of the chat endpoint\<close>

text \<open>
  The four copies of the chat endpoint (\<^verbatim>\<open>src/pages/api/chat.ts\<close> and the three
  further copies carried in \<^verbatim>\<open>src/pages/index.tsx\<close>) share one rate limiter,
  character for character. Its store is the process-wide
  \<^verbatim>\<open>Map<string, {count, resetTime}>\<close>; here it is an explicit map that every call
  takes and returns. \<^verbatim>\<open>Date.now()\<close> is the argument \<open>now\<close>, in milliseconds.
\<close>

record RateEntry =
  count :: int
  resetTime :: int

type_synonym rate_store = "string \<rightharpoonup> RateEntry"

definition RATE_LIMIT :: int where
  "RATE_LIMIT = 5"

definition RATE_WINDOW :: int where
  "RATE_WINDOW = 5 * 60 * 1000"

text \<open>
  \<^verbatim>\<open>isRateLimited(key)\<close>: the returned pair is the boolean result and the store after
  the call. \<^verbatim>\<open>userLimit.count++\<close> mutates the object held by the map, which is the
  update of the entry under \<open>key\<close>.
\<close>

definition isRateLimited :: "int \<Rightarrow> string \<Rightarrow> rate_store \<Rightarrow> bool \<times> rate_store" where
  "isRateLimited now key m =
     (case m key of
        None \<Rightarrow> (False, m(key \<mapsto> \<lparr>count = 1, resetTime = now + RATE_WINDOW\<rparr>))
      | Some userLimit \<Rightarrow>
          if now > resetTime userLimit
          then (False, m(key \<mapsto> \<lparr>count = 1, resetTime = now + RATE_WINDOW\<rparr>))
          else if count userLimit \<ge> RATE_LIMIT
          then (True, m)
          else (False, m(key \<mapsto> userLimit\<lparr>count := count userLimit + 1\<rparr>)))"

text \<open>A sequence of calls \<open>(now, key)\<close>, in order: the results and the final store.\<close>

fun run_calls :: "(int \<times> string) list \<Rightarrow> rate_store \<Rightarrow> bool list \<times> rate_store" where
  "run_calls [] m = ([], m)"
| "run_calls ((now, key) # cs) m =
     (let (b, m') = isRateLimited now key m;
          (bs, m'') = run_calls cs m'
      in (b # bs, m''))"

text \<open>The results of the calls made with key \<open>k\<close>, and the times of those calls.\<close>

definition results_for :: "string \<Rightarrow> (int \<times> string) list \<Rightarrow> rate_store \<Rightarrow> bool list" where
  "results_for k cs m = map snd (filter (\<lambda>(c, b). snd c = k) (zip cs (fst (run_calls cs m))))"

definition times_of :: "string \<Rightarrow> (int \<times> string) list \<Rightarrow> int list" where
  "times_of k cs = map fst (filter (\<lambda>c. snd c = k) cs)"

text \<open>A key starts a new window at \<open>now\<close> when it has no entry or its entry has expired.\<close>

definition starts_window :: "int \<Rightarrow> RateEntry option \<Rightarrow> bool" where
  "starts_window now e = (case e of None \<Rightarrow> True | Some u \<Rightarrow> now > resetTime u)"

text \<open>The invariant of the store: every entry counts between 1 and \<open>RATE_LIMIT\<close> requests.\<close>

definition store_inv :: "rate_store \<Rightarrow> bool" where
  "store_inv m = (\<forall>k u. m k = Some u \<longrightarrow> 1 \<le> count u \<and> count u \<le> RATE_LIMIT)"

text \<open>
  The same decision seen from one key's entry alone; \<open>entry_run\<close> feeds it the times of
  that key's calls. Both serve the proofs only: \<open>isRateLimited_entry_step\<close> and
  \<open>results_for_entry_run\<close> tie them to \<open>isRateLimited\<close>.
\<close>

definition entry_step :: "int \<Rightarrow> RateEntry option \<Rightarrow> bool \<times> RateEntry option" where
  "entry_step now e =
     (case e of
        None \<Rightarrow> (False, Some \<lparr>count = 1, resetTime = now + RATE_WINDOW\<rparr>)
      | Some u \<Rightarrow>
          if now > resetTime u then (False, Some \<lparr>count = 1, resetTime = now + RATE_WINDOW\<rparr>)
          else if count u \<ge> RATE_LIMIT then (True, Some u)
          else (False, Some (u\<lparr>count := count u + 1\<rparr>)))"

fun entry_run :: "int list \<Rightarrow> RateEntry option \<Rightarrow> bool list" where
  "entry_run [] e = []"
| "entry_run (t # ts) e = fst (entry_step t e) # entry_run ts (snd (entry_step t e))"

section \<open>Strings of the endpoint\<close>

text \<open>
  A JavaScript string is a sequence of UTF-16 code units. The model is \<open>string\<close>, whose
  characters are the code units below 256 (ASCII and Latin-1); \<open>length\<close> is
  \<^verbatim>\<open>.length\<close>. On these code units \<^verbatim>\<open>toLowerCase\<close> maps \<^verbatim>\<open>A-Z\<close> and the capital
  letters \<^verbatim>\<open>U+00C0-U+00DE\<close> (the multiplication sign \<^verbatim>\<open>U+00D7\<close> apart) to the code
  unit 32 above, and leaves every other code unit alone.
\<close>

definition lower_unit :: "char \<Rightarrow> char" where
  "lower_unit c =
     (let n = of_char c :: nat in
      if (65 \<le> n \<and> n \<le> 90) \<or> (192 \<le> n \<and> n \<le> 222 \<and> n \<noteq> 215)
      then char_of (n + 32) else c)"

definition toLowerCase :: "string \<Rightarrow> string" where
  "toLowerCase s = map lower_unit s"

text \<open>\<^verbatim>\<open>s.includes(sub)\<close>: \<open>sub\<close> occurs in \<open>s\<close> as a contiguous run.\<close>

fun str_includes :: "string \<Rightarrow> string \<Rightarrow> bool" where
  "str_includes [] sub = (sub = [])"
| "str_includes (c # cs) sub = (prefix sub (c # cs) \<or> str_includes cs sub)"

text \<open>
  \<^verbatim>\<open>s.trim()\<close> removes white space and line terminators from both ends; below 256 these
  are tab, line feed, vertical tab, form feed, carriage return, space and the no-break
  space.
\<close>

definition is_white_space :: "char \<Rightarrow> bool" where
  "is_white_space c = (of_char c \<in> {9, 10, 11, 12, 13, 32, 160 :: nat})"

definition trim :: "string \<Rightarrow> string" where
  "trim s = rev (dropWhile is_white_space (rev (dropWhile is_white_space s)))"

subsection \<open>The regular expressions of the filter\<close>

text \<open>
  Every pattern of \<^verbatim>\<open>localServicePatterns\<close> has the shape
  \<^verbatim>\<open>/head.*(alt1|alt2|alt3)/i\<close> and is held as the pair of its head and its
  alternatives. Under the flag \<^verbatim>\<open>i\<close> (without \<^verbatim>\<open>u\<close>) a pattern letter \<^verbatim>\<open>a-z\<close>
  matches itself and its capital and nothing else, since canonicalisation never maps a
  code unit from 128 on to one below 128; that is \<open>same_letter\<close>. The dot matches every
  code unit but a line terminator (below 256: line feed and carriage return).
  \<^verbatim>\<open>pattern.test(s)\<close> looks for a match starting at any position of \<open>s\<close>.
\<close>

definition same_letter :: "char \<Rightarrow> char \<Rightarrow> bool" where
  "same_letter c k =
     (c = k \<or> (97 \<le> (of_char k :: nat) \<and> (of_char k :: nat) \<le> 122
               \<and> (of_char c :: nat) + 32 = of_char k))"

fun ci_prefix :: "string \<Rightarrow> string \<Rightarrow> bool" where
  "ci_prefix [] s = True"
| "ci_prefix (k # ks) [] = False"
| "ci_prefix (k # ks) (c # cs) = (same_letter c k \<and> ci_prefix ks cs)"

definition is_line_terminator :: "char \<Rightarrow> bool" where
  "is_line_terminator c = (of_char c \<in> {10, 13 :: nat})"

type_synonym pattern = "string \<times> string list"

fun dot_star_then :: "string list \<Rightarrow> string \<Rightarrow> bool" where
  "dot_star_then alts [] = list_ex (\<lambda>a. ci_prefix a []) alts"
| "dot_star_then alts (c # cs) =
     (list_ex (\<lambda>a. ci_prefix a (c # cs)) alts
      \<or> (\<not> is_line_terminator c \<and> dot_star_then alts cs))"

definition match_here :: "pattern \<Rightarrow> string \<Rightarrow> bool" where
  "match_here p s = (ci_prefix (fst p) s \<and> dot_star_then (snd p) (drop (length (fst p)) s))"

fun regex_test :: "pattern \<Rightarrow> string \<Rightarrow> bool" where
  "regex_test p [] = match_here p []"
| "regex_test p (c # cs) = (match_here p (c # cs) \<or> regex_test p cs)"

section \<open>Relevance filter\<close>

text \<open>
  \<^verbatim>\<open>isNorthstoweRelated\<close> of \<^verbatim>\<open>src/pages/api/chat.ts\<close>: the two direct mentions, then
  the keyword list, and nothing else.
\<close>

definition northstoweKeywords :: "string list" where
  "northstoweKeywords =
    [''northstowe'', ''north stowe'', ''cambridge'', ''cambridgeshire'',
     ''town council'', ''community'', ''local'', ''neighbourhood'',
     ''gp'', ''doctor'', ''surgery'', ''medical'', ''health'',
     ''school'', ''education'', ''primary school'', ''secondary school'',
     ''transport'', ''bus'', ''train'', ''cycling'', ''walking'',
     ''shops'', ''shopping'', ''supermarket'', ''tesco'', ''pharmacy'',
     ''library'', ''community centre'', ''church'', ''facilities'',
     ''housing'', ''development'', ''planning'', ''construction'',
     ''park'', ''green space'', ''recreation'', ''sport'',
     ''police'', ''fire service'', ''emergency services'']"

definition isNorthstoweRelated :: "string \<Rightarrow> bool" where
  "isNorthstoweRelated query =
     (let lowerQuery = toLowerCase query in
      if str_includes lowerQuery ''northstowe'' \<or> str_includes lowerQuery ''north stowe''
      then True
      else list_ex (\<lambda>keyword. str_includes lowerQuery (toLowerCase keyword))
             northstoweKeywords)"

text \<open>
  \<^verbatim>\<open>isNorthstoweRelated\<close> of the three copies of the endpoint in
  \<^verbatim>\<open>src/pages/index.tsx\<close> (one text in all three): a longer keyword list, the follow-up
  keywords for a query of at most 50 code units after trimming, and the patterns.
\<close>

definition northstoweKeywords_index :: "string list" where
  "northstoweKeywords_index =
    [''northstowe'', ''north stowe'', ''cambridge'', ''cambridgeshire'',
     ''town council'', ''community'', ''local'', ''neighbourhood'',
     ''gp'', ''doctor'', ''surgery'', ''medical'', ''health'',
     ''school'', ''education'', ''primary school'', ''secondary school'',
     ''transport'', ''bus'', ''train'', ''cycling'', ''walking'',
     ''shops'', ''shopping'', ''supermarket'', ''tesco'', ''pharmacy'',
     ''library'', ''community centre'', ''church'', ''facilities'',
     ''housing'', ''development'', ''planning'', ''construction'',
     ''park'', ''green space'', ''recreation'', ''sport'',
     ''police'', ''fire service'', ''emergency services'',
     ''unity centre'', ''unity center'', ''cabin'', ''community hub'',
     ''cycle path'', ''guided busway'', ''phase'', ''development'',
     ''bin collection'', ''bins'', ''rubbish'', ''recycling'', ''waste'',
     ''refuse'', ''collection day'', ''black bin'', ''blue bin'', ''green bin'',
     ''heron road'', ''road'', ''street'', ''avenue'', ''close'', ''way'']"

definition followUpKeywords :: "string list" where
  "followUpKeywords =
    [''when'', ''where'', ''how'', ''what'', ''who'', ''why'', ''which'',
     ''opening'', ''available'', ''cost'', ''price'', ''time'', ''date'',
     ''contact'', ''phone'', ''email'', ''address'', ''location'',
     ''more information'', ''details'', ''update'', ''status'',
     ''it'', ''this'', ''that'', ''they'', ''there'', ''here'',
     ''also'', ''additionally'', ''furthermore'', ''moreover'',
     ''nearest'', ''closest'', ''best'', ''recommended'']"

definition localServicePatterns :: "pattern list" where
  "localServicePatterns =
    [(''when'', [''open'', ''close'', ''available'']),
     (''where'', [''is'', ''are'', ''can'']),
     (''how'', [''get'', ''reach'', ''contact'']),
     (''what'', [''time'', ''day'', ''hour'']),
     (''is'', [''open'', ''available'', ''ready'']),
     (''are'', [''there'', ''any'', ''open''])]"

definition isNorthstoweRelated_index :: "string \<Rightarrow> bool" where
  "isNorthstoweRelated_index query =
     (let lowerQuery = toLowerCase query in
      if str_includes lowerQuery ''northstowe'' \<or> str_includes lowerQuery ''north stowe''
      then True
      else if list_ex (\<lambda>keyword. str_includes lowerQuery (toLowerCase keyword))
                northstoweKeywords_index
      then True
      else if length (trim query) \<le> 50
              \<and> list_ex (\<lambda>keyword. str_includes lowerQuery (toLowerCase keyword))
                    followUpKeywords
      then True
      else if list_ex (\<lambda>pattern. regex_test pattern query) localServicePatterns
      then True
      else False)"

text \<open>
  What the properties below mean by a query containing a word in any letter case: at
  some position of the query the word stands, each of its letters as written or as its
  capital.
\<close>

fun ci_includes :: "string \<Rightarrow> string \<Rightarrow> bool" where
  "ci_includes [] w = ci_prefix w []"
| "ci_includes (c # cs) w = (ci_prefix w (c # cs) \<or> ci_includes cs w)"

text \<open>
  A plain code unit is an ASCII code unit that is not a capital letter; every keyword of
  the filter consists of plain code units.
\<close>

definition plain_unit :: "char \<Rightarrow> bool" where
  "plain_unit k = ((of_char k :: nat) < 128 \<and> \<not> (65 \<le> (of_char k :: nat) \<and> (of_char k :: nat) \<le> 90))"

section \<open>Query enhancer\<close>

text \<open>
  \<^verbatim>\<open>enhanceQueryForNorthstowe\<close> of \<^verbatim>\<open>src/pages/api/chat.ts\<close> (lines 78-82); the copy of
  the endpoint at line 845 of \<^verbatim>\<open>src/pages/index.tsx\<close> has the same text.
\<close>

definition enhanceQueryForNorthstowe :: "string \<Rightarrow> string" where
  "enhanceQueryForNorthstowe query =
     query @ '' in Northstowe, Cambridgeshire, UK. Northstowe is a new town development in South Cambridgeshire.''"

text \<open>
  \<^verbatim>\<open>enhanceQueryForNorthstowe\<close> of the copy at lines 402-428 of
  \<^verbatim>\<open>src/pages/index.tsx\<close>. \<open>currentDate\<close> stands for
  \<^verbatim>\<open>new Date().toLocaleDateString('en-GB')\<close>.
\<close>

definition enhanceQueryForNorthstowe_402 :: "string \<Rightarrow> string \<Rightarrow> string" where
  \<open>enhanceQueryForNorthstowe_402 currentDate query =
     (let lowerQuery = toLowerCase query in
      if str_includes lowerQuery ''meeting'' \<or> str_includes lowerQuery ''council''
      then ''site:northstowetowncouncil.gov.uk Northstowe Town Council meeting agenda September 2024 2025 "23 September" "23rd September" "September 23" next upcoming meeting after ''
             @ currentDate
      else if str_includes lowerQuery ''bin'' \<or> str_includes lowerQuery ''collection''
              \<or> str_includes lowerQuery ''waste'' \<or> str_includes lowerQuery ''rubbish''
      then query @ '' Northstowe bin collection schedule next Friday''
      else if str_includes lowerQuery ''bus'' \<or> str_includes lowerQuery ''transport''
              \<or> str_includes lowerQuery ''travel''
      then query @ '' Northstowe bus transport timetable route''
      else if str_includes lowerQuery ''open'' \<or> str_includes lowerQuery ''centre''
              \<or> str_includes lowerQuery ''center'' \<or> str_includes lowerQuery ''facility''
      then query @ '' Northstowe opening times construction timeline''
      else query @ '' in Northstowe, Cambridgeshire, UK. Find specific current information, dates, times, schedules, contact details.'')\<close>

text \<open>
  \<^verbatim>\<open>enhanceQueryForNorthstowe\<close> of the copy at lines 687-712 of
  \<^verbatim>\<open>src/pages/index.tsx\<close>: the same branches, the first one keeping the query.
\<close>

definition enhanceQueryForNorthstowe_687 :: "string \<Rightarrow> string" where
  "enhanceQueryForNorthstowe_687 query =
     (let lowerQuery = toLowerCase query in
      if str_includes lowerQuery ''meeting'' \<or> str_includes lowerQuery ''council''
      then query @ '' Northstowe Town Council meeting schedule upcoming dates''
      else if str_includes lowerQuery ''bin'' \<or> str_includes lowerQuery ''collection''
              \<or> str_includes lowerQuery ''waste'' \<or> str_includes lowerQuery ''rubbish''
      then query @ '' Northstowe bin collection schedule next Friday''
      else if str_includes lowerQuery ''bus'' \<or> str_includes lowerQuery ''transport''
              \<or> str_includes lowerQuery ''travel''
      then query @ '' Northstowe bus transport timetable route''
      else if str_includes lowerQuery ''open'' \<or> str_includes lowerQuery ''centre''
              \<or> str_includes lowerQuery ''center'' \<or> str_includes lowerQuery ''facility''
      then query @ '' Northstowe opening times construction timeline''
      else query @ '' in Northstowe, Cambridgeshire, UK. Find specific current information, dates, times, schedules, contact details.'')"

text \<open>The test of the first branch of the two branching enhancers.\<close>

definition mentions_meeting :: "string \<Rightarrow> bool" where
  "mentions_meeting query =
     (str_includes (toLowerCase query) ''meeting'' \<or> str_includes (toLowerCase query) ''council'')"

section \<open>Request handler\<close>

text \<open>
  The value of \<^verbatim>\<open>req.body.message\<close> is any JSON value, or \<^verbatim>\<open>undefined\<close> when the
  body has no such property. A number is held as an integer: only its being zero or not
  matters to the handler, and it is rejected either way.
\<close>

datatype js_value =
    JUndefined
  | JNull
  | JBool bool
  | JNumber int
  | JString string
  | JObject

fun truthy :: "js_value \<Rightarrow> bool" where
  "truthy JUndefined = False"
| "truthy JNull = False"
| "truthy (JBool b) = b"
| "truthy (JNumber n) = (n \<noteq> 0)"
| "truthy (JString s) = (s \<noteq> [])"
| "truthy JObject = True"

fun typeof :: "js_value \<Rightarrow> string" where
  "typeof JUndefined = ''undefined''"
| "typeof JNull = ''object''"
| "typeof (JBool b) = ''boolean''"
| "typeof (JNumber n) = ''number''"
| "typeof (JString s) = ''string''"
| "typeof JObject = ''object''"

fun string_of :: "js_value \<Rightarrow> string" where
  "string_of (JString s) = s"
| "string_of v = []"

text \<open>
  The request as the handler reads it: the method, the \<^verbatim>\<open>x-forwarded-for\<close> header, the
  socket's remote address, and the body. \<open>body = None\<close> is a body that is
  \<^verbatim>\<open>undefined\<close> or \<^verbatim>\<open>null\<close>, on which \<^verbatim>\<open>const { message } = req.body\<close> throws;
  \<open>body = Some v\<close> is a body whose property \<^verbatim>\<open>message\<close> has the value \<open>v\<close>.
\<close>

record request =
  "method" :: string
  forwardedFor :: "string option"
  remoteAddress :: "string option"
  body :: "js_value option"

text \<open>
  What the handler sends: \<^verbatim>\<open>res.status(code).json(payload)\<close>. The payload is either
  \<^verbatim>\<open>{error, rateLimited?}\<close> or \<^verbatim>\<open>{response, notRelated?}\<close>; the flag of each is
  \<^verbatim>\<open>true\<close> when present, and the boolean says whether it is present.
\<close>

datatype payload =
    ErrorPayload string bool
  | ResponsePayload string bool

datatype outcome =
    Sent nat payload
  | Thrown

text \<open>
  The upstream call \<^verbatim>\<open>axios.post(...)\<close>. Of the request the model keeps the model name,
  the token limit, the bearer token and the content of the user message; the system
  prompt and the sampling and search parameters are constants of each copy that the
  handler never reads back. The call either resolves, with
  \<^verbatim>\<open>response.data.choices\<close> (\<open>None\<close> when the property is missing, so that indexing it
  throws inside the \<^verbatim>\<open>try\<close>) as the list of each choice's \<^verbatim>\<open>message?.content\<close>, or
  rejects with an axios error carrying \<^verbatim>\<open>error.response?.status\<close> (\<open>None\<close> when there
  was no response), or rejects with any other error.
\<close>

record upstream_request =
  model :: string
  max_tokens :: nat
  bearer :: string
  user_content :: string

datatype upstream_result =
    Resolved "string option list option"
  | AxiosError "nat option"
  | OtherError

text \<open>
  The four copies of the endpoint differ in the filter, the enhancer and the upstream
  parameters only.
\<close>

record endpoint =
  related :: "string \<Rightarrow> bool"
  enhance :: "string \<Rightarrow> string"
  model_name :: string
  token_limit :: nat

definition chat_ts :: endpoint where
  "chat_ts = \<lparr>related = isNorthstoweRelated, enhance = enhanceQueryForNorthstowe,
              model_name = ''sonar-small-online'', token_limit = 800\<rparr>"

definition index_tsx_845 :: endpoint where
  "index_tsx_845 = \<lparr>related = isNorthstoweRelated_index, enhance = enhanceQueryForNorthstowe,
              model_name = ''sonar'', token_limit = 1200\<rparr>"

definition index_tsx_569 :: endpoint where
  "index_tsx_569 = \<lparr>related = isNorthstoweRelated_index, enhance = enhanceQueryForNorthstowe_687,
              model_name = ''sonar'', token_limit = 1200\<rparr>"

definition index_tsx_284 :: "string \<Rightarrow> endpoint" where
  "index_tsx_284 currentDate =
     \<lparr>related = isNorthstoweRelated_index, enhance = enhanceQueryForNorthstowe_402 currentDate,
      model_name = ''sonar-reasoning'', token_limit = 2000\<rparr>"

text \<open>\<^verbatim>\<open>a || b || 'unknown'\<close> on two values that are a string or \<^verbatim>\<open>undefined\<close>.\<close>

definition getRateLimitKey :: "request \<Rightarrow> string" where
  "getRateLimitKey req =
     (case forwardedFor req of
        Some a \<Rightarrow> if a \<noteq> [] then a
                  else (case remoteAddress req of
                          Some b \<Rightarrow> if b \<noteq> [] then b else ''unknown''
                        | None \<Rightarrow> ''unknown'')
      | None \<Rightarrow> (case remoteAddress req of
                    Some b \<Rightarrow> if b \<noteq> [] then b else ''unknown''
                  | None \<Rightarrow> ''unknown''))"

text \<open>
  The \<^verbatim>\<open>catch\<close> block: what is sent for a rejected upstream call or for an exception
  thrown inside the \<^verbatim>\<open>try\<close>. \<open>status = None\<close> covers an axios error without a response
  and an error that is not an axios error. The \<^verbatim>\<open>console.error\<close> lines are not
  modelled.
\<close>

definition on_error :: "nat option \<Rightarrow> outcome" where
  "on_error status =
     (if status = Some 401
      then Sent 500 (ErrorPayload ''API authentication failed - check your Perplexity API key'' False)
      else if status = Some 429
      then Sent 429 (ErrorPayload ''API rate limit exceeded. Please try again later.'' False)
      else if status = Some 403
      then Sent 500 (ErrorPayload ''API access forbidden - check your Perplexity API key permissions'' False)
      else Sent 500 (ErrorPayload ''Failed to get response. Please try again.'' False))"

text \<open>
  The canned refusal; the apostrophe of \<^verbatim>\<open>I'm\<close> is the code unit 39.
\<close>

definition notRelatedText :: string where
  "notRelatedText =
     ''I'' @ [CHR 0x27] @ ''m sorry, I can only answer questions related to Northstowe. Please ask me about local services, facilities, developments, or community information in Northstowe.''"

text \<open>
  The request built inside the \<^verbatim>\<open>try\<close>: the user message is the enhanced query, the
  token is \<^verbatim>\<open>Bearer ${apiKey}\<close>.
\<close>

definition upstream_call :: "endpoint \<Rightarrow> string \<Rightarrow> string \<Rightarrow> upstream_request" where
  "upstream_call ep key message =
     (let enhancedMessage = enhance ep message
      in \<lparr>model = model_name ep, max_tokens = token_limit ep,
          bearer = ''Bearer '' @ key, user_content = enhancedMessage\<rparr>)"

text \<open>
  \<^verbatim>\<open>handler(req, res)\<close>. The arguments beside the request are the copy of the endpoint,
  the upstream service, \<^verbatim>\<open>process.env.PERPLEXITY_API_KEY\<close>, \<^verbatim>\<open>Date.now()\<close> and the
  rate-limit store. The result is what was sent (or \<open>Thrown\<close>), the upstream requests
  issued, in order, and the store after the call.
\<close>

definition handler ::
  "endpoint \<Rightarrow> (upstream_request \<Rightarrow> upstream_result) \<Rightarrow> string option \<Rightarrow> int
     \<Rightarrow> request \<Rightarrow> rate_store \<Rightarrow> outcome \<times> upstream_request list \<times> rate_store" where
  "handler ep upstream apiKey now req store =
     (if method req \<noteq> ''POST''
      then (Sent 405 (ErrorPayload ''Method not allowed'' False), [], store)
      else
        let (limited, store') = isRateLimited now (getRateLimitKey req) store in
        if limited
        then (Sent 429 (ErrorPayload
                ''Too many requests. Please wait a moment before asking another question.'' True),
              [], store')
        else
          case body req of
            None \<Rightarrow> (Thrown, [], store')
          | Some message \<Rightarrow>
              if \<not> truthy message \<or> typeof message \<noteq> ''string''
              then (Sent 400 (ErrorPayload ''Message is required'' False), [], store')
              else if \<not> related ep (string_of message)
              then (Sent 200 (ResponsePayload notRelatedText True), [], store')
              else
                case apiKey of
                  None \<Rightarrow> (Sent 500 (ErrorPayload ''API key not configured'' False), [], store')
                | Some key \<Rightarrow>
                    if key = []
                    then (Sent 500 (ErrorPayload ''API key not configured'' False), [], store')
                    else
                      let call = upstream_call ep key (string_of message)
                      in (case upstream call of
                            Resolved None \<Rightarrow> (on_error None, [call], store')
                          | Resolved (Some choices) \<Rightarrow>
                              (case (case choices of [] \<Rightarrow> None | c # cs \<Rightarrow> c) of
                                 None \<Rightarrow>
                                   (Sent 500 (ErrorPayload ''No response from AI service'' False),
                                    [call], store')
                               | Some aiResponse \<Rightarrow>
                                   if aiResponse = []
                                   then (Sent 500 (ErrorPayload ''No response from AI service'' False),
                                         [call], store')
                                   else (Sent 200 (ResponsePayload aiResponse False), [call], store'))
                          | AxiosError status \<Rightarrow> (on_error status, [call], store')
                          | OtherError \<Rightarrow> (on_error None, [call], store')))"

section \<open>Properties of the request gate\<close>

lemma isRateLimited_other_key:
  "k \<noteq> key \<Longrightarrow> snd (isRateLimited now key m) k = m k"
  by (simp add: isRateLimited_def split: option.split)

text \<open>
  C8: when the key's entry exists, the call is inside its window (\<open>now \<le> resetTime\<close>) and
  the count has reached \<open>RATE_LIMIT = 5\<close>, the call is blocked and the store is left
  exactly as it was.
\<close>

theorem blocked_leaves_store_unchanged:
  assumes "m key = Some u" and "now \<le> resetTime u" and "count u \<ge> 5"
  shows "isRateLimited now key m = (True, m)"
  using assms by (simp add: isRateLimited_def RATE_LIMIT_def)

theorem blocked_leaves_store_unchanged_witness:
  "[''10.0.0.7'' \<mapsto> \<lparr>count = 5, resetTime = 300000\<rparr>] ''10.0.0.7''
     = Some \<lparr>count = 5, resetTime = 300000\<rparr>
   \<and> (1200::int) \<le> resetTime \<lparr>count = 5, resetTime = 300000\<rparr>
   \<and> count \<lparr>count = 5, resetTime = 300000\<rparr> \<ge> 5
   \<and> isRateLimited 1200 ''10.0.0.7'' [''10.0.0.7'' \<mapsto> \<lparr>count = 5, resetTime = 300000\<rparr>]
     = (True, [''10.0.0.7'' \<mapsto> \<lparr>count = 5, resetTime = 300000\<rparr>])"
  using blocked_leaves_store_unchanged
    [of "[''10.0.0.7'' \<mapsto> \<lparr>count = 5, resetTime = 300000\<rparr>]" "''10.0.0.7''"
        "\<lparr>count = 5, resetTime = 300000\<rparr>" 1200]
  by simp

lemma isRateLimited_entry_step:
  "fst (isRateLimited now key m) = fst (entry_step now (m key))"
  "snd (isRateLimited now key m) key = snd (entry_step now (m key))"
  by (simp_all add: isRateLimited_def entry_step_def split: option.split)

lemma results_for_Cons:
  "results_for k ((now, key) # cs) m =
     (if key = k then [fst (isRateLimited now key m)] else [])
       @ results_for k cs (snd (isRateLimited now key m))"
  by (simp add: results_for_def split: prod.split)

lemma times_of_Cons:
  "times_of k ((now, key) # cs) = (if key = k then [now] else []) @ times_of k cs"
  by (simp add: times_of_def)

lemma results_for_entry_run:
  "results_for k cs m = entry_run (times_of k cs) (m k)"
proof (induction cs arbitrary: m)
  case Nil
  show ?case by (simp add: results_for_def times_of_def)
next
  case (Cons c cs)
  obtain now key where c: "c = (now, key)" by (cases c)
  show ?case
  proof (cases "key = k")
    case True
    then show ?thesis
      by (simp add: c results_for_Cons times_of_Cons Cons.IH isRateLimited_entry_step)
  next
    case False
    then have "snd (isRateLimited now key m) k = m k"
      by (simp add: isRateLimited_other_key)
    with False show ?thesis
      by (simp add: c results_for_Cons times_of_Cons Cons.IH)
  qed
qed

lemma entry_run_six:
  assumes "starts_window t1 e"
    and "t2 \<le> t1 + RATE_WINDOW" "t3 \<le> t1 + RATE_WINDOW" "t4 \<le> t1 + RATE_WINDOW"
        "t5 \<le> t1 + RATE_WINDOW" "t6 \<le> t1 + RATE_WINDOW"
  shows "entry_run [t1, t2, t3, t4, t5, t6] e = [False, False, False, False, False, True]"
  using assms
  by (cases e) (simp_all add: starts_window_def entry_step_def RATE_LIMIT_def)

text \<open>
  C1: take any sequence of calls in which key \<open>k\<close> starts a window at \<open>t1\<close> (it has no
  entry, or its entry has expired) and is used six times, the later five no later than
  \<open>t1 + RATE_WINDOW\<close>, with calls for other keys anywhere in between: the first five calls
  for \<open>k\<close> are allowed and the sixth is blocked. And a call made when \<open>now\<close> is past the
  entry's \<open>resetTime\<close> is allowed and replaces the entry by count 1 and
  \<open>resetTime = now + RATE_WINDOW\<close>.
\<close>

theorem sixth_call_blocked_and_expiry_resets:
  "(starts_window t1 (m k) \<and> times_of k cs = [t1, t2, t3, t4, t5, t6]
      \<and> (\<forall>t \<in> set [t2, t3, t4, t5, t6]. t \<le> t1 + RATE_WINDOW)
     \<longrightarrow> results_for k cs m = [False, False, False, False, False, True])
   \<and> (m k = Some u \<and> now > resetTime u
     \<longrightarrow> isRateLimited now k m = (False, m(k \<mapsto> \<lparr>count = 1, resetTime = now + RATE_WINDOW\<rparr>)))"
proof (intro conjI impI)
  assume a: "starts_window t1 (m k) \<and> times_of k cs = [t1, t2, t3, t4, t5, t6]
      \<and> (\<forall>t \<in> set [t2, t3, t4, t5, t6]. t \<le> t1 + RATE_WINDOW)"
  then have "entry_run [t1, t2, t3, t4, t5, t6] (m k) = [False, False, False, False, False, True]"
    by (intro entry_run_six) simp_all
  with a show "results_for k cs m = [False, False, False, False, False, True]"
    by (simp add: results_for_entry_run)
next
  assume "m k = Some u \<and> now > resetTime u"
  then show "isRateLimited now k m = (False, m(k \<mapsto> \<lparr>count = 1, resetTime = now + RATE_WINDOW\<rparr>))"
    by (simp add: isRateLimited_def)
qed

lemma store_inv_empty: "store_inv Map.empty"
  by (simp add: store_inv_def)

lemma isRateLimited_inv_step:
  assumes "store_inv m"
  shows "store_inv (snd (isRateLimited now key m))"
  unfolding store_inv_def
proof (intro allI impI)
  fix k u'
  assume h: "snd (isRateLimited now key m) k = Some u'"
  show "1 \<le> count u' \<and> count u' \<le> RATE_LIMIT"
  proof (cases "k = key")
    case False
    with h have "m k = Some u'" by (simp add: isRateLimited_other_key)
    with assms show ?thesis by (simp add: store_inv_def)
  next
    case True
    show ?thesis
    proof (cases "m key")
      case None
      with h True show ?thesis by (auto simp add: isRateLimited_def RATE_LIMIT_def)
    next
      case (Some u)
      with assms have "1 \<le> count u \<and> count u \<le> RATE_LIMIT" by (simp add: store_inv_def)
      with h True Some show ?thesis
        by (auto simp add: isRateLimited_def RATE_LIMIT_def split: if_splits)
    qed
  qed
qed

lemma isRateLimited_window_step:
  assumes "m k = Some u"
  shows "\<exists>u'. snd (isRateLimited now key m) k = Some u'
             \<and> (if k = key \<and> now > resetTime u
                then u' = \<lparr>count = 1, resetTime = now + RATE_WINDOW\<rparr>
                else resetTime u' = resetTime u)"
proof (cases "k = key")
  case True
  with assms show ?thesis by (simp add: isRateLimited_def)
next
  case False
  with assms show ?thesis by (simp add: isRateLimited_other_key)
qed

text \<open>
  C2: every call preserves the invariant that each entry of the store has a count between
  1 and \<open>RATE_LIMIT = 5\<close> (the empty store of a fresh process satisfies it, see
  \<open>store_inv_empty\<close>). No entry is ever dropped, and an entry's \<open>resetTime\<close> changes only
  for the key of the call and only when \<open>now > resetTime\<close>, where the entry is replaced by
  count 1 and \<open>resetTime = now + RATE_WINDOW\<close>; otherwise the window stays where it was.
\<close>

theorem isRateLimited_preserves_inv:
  assumes "store_inv m"
  shows "store_inv (snd (isRateLimited now key m))
    \<and> (\<forall>k u. m k = Some u \<longrightarrow>
          (\<exists>u'. snd (isRateLimited now key m) k = Some u'
             \<and> (if k = key \<and> now > resetTime u
                then u' = \<lparr>count = 1, resetTime = now + RATE_WINDOW\<rparr>
                else resetTime u' = resetTime u)))"
  using assms isRateLimited_inv_step isRateLimited_window_step by blast


theorem sixth_call_blocked_and_expiry_resets_witness:
  "results_for ''10.0.0.7''
     [(1000, ''10.0.0.7''), (1500, ''10.0.0.9''), (2000, ''10.0.0.7''), (3000, ''10.0.0.7''),
      (3500, ''10.0.0.9''), (4000, ''10.0.0.7''), (5000, ''10.0.0.7''), (301000, ''10.0.0.7'')]
     [''10.0.0.7'' \<mapsto> \<lparr>count = 5, resetTime = 500\<rparr>]
     = [False, False, False, False, False, True]
   \<and> isRateLimited 400000 ''10.0.0.7'' [''10.0.0.7'' \<mapsto> \<lparr>count = 5, resetTime = 500\<rparr>]
     = (False, [''10.0.0.7'' \<mapsto> \<lparr>count = 1, resetTime = 700000\<rparr>])"
  using sixth_call_blocked_and_expiry_resets
    [of 1000 "[''10.0.0.7'' \<mapsto> \<lparr>count = 5, resetTime = 500\<rparr>]" "''10.0.0.7''"
        "[(1000, ''10.0.0.7''), (1500, ''10.0.0.9''), (2000, ''10.0.0.7''), (3000, ''10.0.0.7''),
          (3500, ''10.0.0.9''), (4000, ''10.0.0.7''), (5000, ''10.0.0.7''), (301000, ''10.0.0.7'')]"
        2000 3000 4000 5000 301000 "\<lparr>count = 5, resetTime = 500\<rparr>" 400000]
  by (simp add: starts_window_def times_of_def RATE_WINDOW_def)

theorem isRateLimited_preserves_inv_witness:
  "store_inv [''10.0.0.7'' \<mapsto> \<lparr>count = 4, resetTime = 300000\<rparr>]
   \<and> store_inv (snd (isRateLimited 1200 ''10.0.0.7''
        [''10.0.0.7'' \<mapsto> \<lparr>count = 4, resetTime = 300000\<rparr>]))
   \<and> snd (isRateLimited 1200 ''10.0.0.7''
        [''10.0.0.7'' \<mapsto> \<lparr>count = 4, resetTime = 300000\<rparr>]) ''10.0.0.7''
       = Some \<lparr>count = 5, resetTime = 300000\<rparr>"
proof -
  have h: "store_inv [''10.0.0.7'' \<mapsto> \<lparr>count = 4, resetTime = 300000\<rparr>]"
    by (simp add: store_inv_def RATE_LIMIT_def)
  have "snd (isRateLimited 1200 ''10.0.0.7''
        [''10.0.0.7'' \<mapsto> \<lparr>count = 4, resetTime = 300000\<rparr>]) ''10.0.0.7''
       = Some \<lparr>count = 5, resetTime = 300000\<rparr>"
    by (simp add: isRateLimited_def RATE_LIMIT_def)
  with h isRateLimited_preserves_inv [OF h, of 1200 "''10.0.0.7''"] show ?thesis
    by simp
qed

section \<open>Properties of the relevance filter\<close>

lemma of_char_lower_unit:
  "(of_char (lower_unit c) :: nat) =
     (if (65 \<le> (of_char c :: nat) \<and> (of_char c :: nat) \<le> 90)
         \<or> (192 \<le> (of_char c :: nat) \<and> (of_char c :: nat) \<le> 222 \<and> (of_char c :: nat) \<noteq> 215)
      then of_char c + 32 else of_char c)"
  by (auto simp add: lower_unit_def Let_def)

lemma lower_unit_eq:
  "(lower_unit c = d) =
     ((if (65 \<le> (of_char c :: nat) \<and> (of_char c :: nat) \<le> 90)
         \<or> (192 \<le> (of_char c :: nat) \<and> (of_char c :: nat) \<le> 222 \<and> (of_char c :: nat) \<noteq> 215)
      then of_char c + 32 else of_char c) = (of_char d :: nat))"
  unfolding of_char_lower_unit [symmetric] by simp

lemma same_letter_lower:
  assumes "plain_unit k"
  shows "(lower_unit c = k) = same_letter c k"
proof -
  have "(lower_unit c = k) = ((of_char (lower_unit c) :: nat) = of_char k)"
    by simp
  also have "\<dots> = (((of_char c :: nat) = of_char k)
      \<or> (97 \<le> (of_char k :: nat) \<and> (of_char k :: nat) \<le> 122 \<and> (of_char c :: nat) + 32 = of_char k))"
    using assms unfolding of_char_lower_unit plain_unit_def by auto
  also have "\<dots> = same_letter c k"
    by (simp add: same_letter_def)
  finally show ?thesis .
qed

lemma ci_prefix_lower:
  "list_all plain_unit w \<Longrightarrow> ci_prefix w s = prefix w (toLowerCase s)"
proof (induction w s rule: ci_prefix.induct)
  case (1 s)
  show ?case by simp
next
  case (2 k ks)
  show ?case by (simp add: toLowerCase_def)
next
  case (3 k ks c cs)
  then have "ci_prefix ks cs = prefix ks (toLowerCase cs)" by simp
  moreover from 3 have "same_letter c k = (lower_unit c = k)"
    by (simp add: same_letter_lower)
  ultimately show ?case by (auto simp add: toLowerCase_def)
qed

lemma ci_includes_lower:
  "list_all plain_unit w \<Longrightarrow> ci_includes s w = str_includes (toLowerCase s) w"
proof (induction s)
  case Nil
  then show ?case by (cases w) (simp_all add: toLowerCase_def)
next
  case (Cons c cs)
  from Cons.prems have "ci_prefix w (c # cs) = prefix w (toLowerCase (c # cs))"
    by (rule ci_prefix_lower)
  with Cons show ?case by (simp add: toLowerCase_def)
qed

lemma plain_toLowerCase: "list_all plain_unit w \<Longrightarrow> toLowerCase w = w"
  by (induction w) (auto simp add: toLowerCase_def lower_unit_def plain_unit_def Let_def)

lemma keyword_includes:
  assumes "list_all (list_all plain_unit) kws"
  shows "list_ex (\<lambda>keyword. str_includes (toLowerCase q) (toLowerCase keyword)) kws
         = list_ex (ci_includes q) kws"
  using assms by (induction kws) (simp_all add: ci_includes_lower plain_toLowerCase)

lemma plain_northstoweKeywords: "list_all (list_all plain_unit) northstoweKeywords"
  by (simp add: northstoweKeywords_def plain_unit_def)

lemma plain_northstoweKeywords_index: "list_all (list_all plain_unit) northstoweKeywords_index"
  by (simp add: northstoweKeywords_index_def plain_unit_def)

lemma plain_followUpKeywords: "list_all (list_all plain_unit) followUpKeywords"
  by (simp add: followUpKeywords_def plain_unit_def)

lemma isNorthstoweRelated_iff:
  "isNorthstoweRelated q = list_ex (ci_includes q) northstoweKeywords"
proof -
  have a: "list_ex (\<lambda>keyword. str_includes (toLowerCase q) (toLowerCase keyword)) northstoweKeywords
        = list_ex (ci_includes q) northstoweKeywords"
    by (rule keyword_includes [OF plain_northstoweKeywords])
  have b: "str_includes (toLowerCase q) ''northstowe'' = ci_includes q ''northstowe''"
    by (simp add: ci_includes_lower plain_unit_def)
  have c: "str_includes (toLowerCase q) ''north stowe'' = ci_includes q ''north stowe''"
    by (simp add: ci_includes_lower plain_unit_def)
  have d: "ci_includes q ''northstowe'' \<Longrightarrow> list_ex (ci_includes q) northstoweKeywords"
    "ci_includes q ''north stowe'' \<Longrightarrow> list_ex (ci_includes q) northstoweKeywords"
    by (simp_all add: northstoweKeywords_def)
  show ?thesis
    unfolding isNorthstoweRelated_def Let_def a b c using d by auto
qed

lemma isNorthstoweRelated_index_iff:
  "isNorthstoweRelated_index q =
     (list_ex (ci_includes q) northstoweKeywords_index
      \<or> (length (trim q) \<le> 50 \<and> list_ex (ci_includes q) followUpKeywords)
      \<or> list_ex (\<lambda>p. regex_test p q) localServicePatterns)"
proof -
  have a: "list_ex (\<lambda>keyword. str_includes (toLowerCase q) (toLowerCase keyword))
             northstoweKeywords_index
        = list_ex (ci_includes q) northstoweKeywords_index"
    by (rule keyword_includes [OF plain_northstoweKeywords_index])
  have a': "list_ex (\<lambda>keyword. str_includes (toLowerCase q) (toLowerCase keyword))
             followUpKeywords
        = list_ex (ci_includes q) followUpKeywords"
    by (rule keyword_includes [OF plain_followUpKeywords])
  have b: "str_includes (toLowerCase q) ''northstowe'' = ci_includes q ''northstowe''"
    by (simp add: ci_includes_lower plain_unit_def)
  have c: "str_includes (toLowerCase q) ''north stowe'' = ci_includes q ''north stowe''"
    by (simp add: ci_includes_lower plain_unit_def)
  have d: "ci_includes q ''northstowe'' \<Longrightarrow> list_ex (ci_includes q) northstoweKeywords_index"
    "ci_includes q ''north stowe'' \<Longrightarrow> list_ex (ci_includes q) northstoweKeywords_index"
    by (simp_all add: northstoweKeywords_index_def)
  show ?thesis
    unfolding isNorthstoweRelated_index_def Let_def a a' b c using d by auto
qed

lemma length_trim: "length (trim q) \<le> length q"
proof -
  have "length (trim q) \<le> length (dropWhile is_white_space q)"
    unfolding trim_def by (simp add: length_dropWhile_le order_trans [OF length_dropWhile_le])
  also have "\<dots> \<le> length q" by (rule length_dropWhile_le)
  finally show ?thesis .
qed

lemma regex_test_head: "regex_test p q \<Longrightarrow> ci_includes q (fst p)"
  by (induction q) (auto simp add: match_here_def)

lemma list_ex_ci_includes:
  assumes "list_all (list_all plain_unit) kws"
  shows "list_ex (ci_includes q) kws = list_ex (str_includes (toLowerCase q)) kws"
  using assms by (induction kws) (simp_all add: ci_includes_lower)

text \<open>
  C5: a query that contains the locality name \<^verbatim>\<open>northstowe\<close>, each letter in either
  case, is accepted by the filter of \<^verbatim>\<open>chat.ts\<close> and by the filter of the copies in
  \<^verbatim>\<open>index.tsx\<close>.
\<close>

theorem locality_name_is_related:
  assumes "ci_includes q ''northstowe''"
  shows "isNorthstoweRelated q \<and> isNorthstoweRelated_index q"
  using assms
  by (simp add: isNorthstoweRelated_iff isNorthstoweRelated_index_iff
      northstoweKeywords_def northstoweKeywords_index_def)

text \<open>
  C4, as the code has it: the filter of the copies in \<^verbatim>\<open>index.tsx\<close> accepts every
  query of at most 50 code units that contains a follow-up keyword in any letter case.
  The filter of \<^verbatim>\<open>chat.ts\<close> has no follow-up list: it accepts a query exactly when the
  query contains one of its locality keywords.
\<close>

theorem short_follow_up_is_related:
  "(length q \<le> 50 \<and> kw \<in> set followUpKeywords \<and> ci_includes q kw
      \<longrightarrow> isNorthstoweRelated_index q)
   \<and> (isNorthstoweRelated q = (\<exists>kw \<in> set northstoweKeywords. ci_includes q kw))"
proof (intro conjI impI)
  assume a: "length q \<le> 50 \<and> kw \<in> set followUpKeywords \<and> ci_includes q kw"
  then have "length (trim q) \<le> 50" using length_trim [of q] by simp
  moreover from a have "list_ex (ci_includes q) followUpKeywords"
    by (auto simp add: list_ex_iff)
  ultimately show "isNorthstoweRelated_index q"
    by (simp add: isNorthstoweRelated_index_iff)
next
  show "isNorthstoweRelated q = (\<exists>kw \<in> set northstoweKeywords. ci_includes q kw)"
    by (simp add: isNorthstoweRelated_iff list_ex_iff)
qed

text \<open>
  C3, as the code has it: a query of more than 50 code units without any locality keyword
  is rejected by the filter of \<^verbatim>\<open>chat.ts\<close>; the filter of the copies in
  \<^verbatim>\<open>index.tsx\<close> rejects such a query, free of follow-up keywords too, when in addition
  none of its six question patterns matches.
\<close>

theorem long_unmatched_is_unrelated:
  "(length q > 50 \<and> \<not> list_ex (ci_includes q) northstoweKeywords
      \<longrightarrow> \<not> isNorthstoweRelated q)
   \<and> (length q > 50 \<and> \<not> list_ex (ci_includes q) northstoweKeywords_index
        \<and> \<not> list_ex (ci_includes q) followUpKeywords
        \<and> \<not> list_ex (\<lambda>p. regex_test p q) localServicePatterns
      \<longrightarrow> \<not> isNorthstoweRelated_index q)"
  by (simp add: isNorthstoweRelated_iff isNorthstoweRelated_index_iff)

lemma dot_star_here: "list_ex (\<lambda>a. ci_prefix a s) alts \<Longrightarrow> dot_star_then alts s"
  by (cases s) simp_all

lemma dot_star_skip:
  "dot_star_then alts cs \<Longrightarrow> \<not> is_line_terminator c \<Longrightarrow> dot_star_then alts (c # cs)"
  by simp

lemma regex_test_here: "match_here p s \<Longrightarrow> regex_test p s"
  by (cases s) simp_all

theorem locality_name_is_related_witness:
  "ci_includes ''What is new in NorthStowe?'' ''northstowe''
   \<and> isNorthstoweRelated ''What is new in NorthStowe?''
   \<and> isNorthstoweRelated_index ''What is new in NorthStowe?''"
proof -
  have l: "toLowerCase ''What is new in NorthStowe?'' = ''what is new in northstowe?''"
    by (simp add: toLowerCase_def lower_unit_eq)
  have p: "list_all plain_unit ''northstowe''"
    by (simp add: plain_unit_def)
  have h: "ci_includes ''What is new in NorthStowe?'' ''northstowe''"
    unfolding ci_includes_lower [OF p] l by simp
  from h locality_name_is_related [OF h] show ?thesis by blast
qed

lemma lower_when_is_it: "toLowerCase ''When is it?'' = ''when is it?''"
  by (simp add: toLowerCase_def lower_unit_eq)

lemma when_is_it_no_keyword:
  "\<not> list_ex (ci_includes ''When is it?'') northstoweKeywords"
proof -
  have "\<not> list_ex (str_includes ''when is it?'') northstoweKeywords"
    by (simp add: northstoweKeywords_def)
  then show ?thesis
    by (simp add: list_ex_ci_includes [OF plain_northstoweKeywords] lower_when_is_it)
qed

lemma when_is_it_unrelated: "\<not> isNorthstoweRelated ''When is it?''"
  using when_is_it_no_keyword by (simp add: isNorthstoweRelated_iff)

theorem short_follow_up_is_related_witness:
  "length ''When is it?'' \<le> 50 \<and> ''when'' \<in> set followUpKeywords
   \<and> ci_includes ''When is it?'' ''when''
   \<and> isNorthstoweRelated_index ''When is it?''"
proof -
  have h: "length ''When is it?'' \<le> 50 \<and> ''when'' \<in> set followUpKeywords
     \<and> ci_includes ''When is it?'' ''when''"
    by (simp add: followUpKeywords_def same_letter_def)
  with short_follow_up_is_related [of "''When is it?''" "''when''"] show ?thesis by blast
qed

theorem short_follow_up_chat_counterexample:
  "length ''When is it?'' \<le> 50 \<and> ''when'' \<in> set followUpKeywords
   \<and> ci_includes ''When is it?'' ''when''
   \<and> \<not> list_ex (ci_includes ''When is it?'') northstoweKeywords
   \<and> \<not> isNorthstoweRelated ''When is it?''"
proof -
  have h: "length ''When is it?'' \<le> 50 \<and> ''when'' \<in> set followUpKeywords
     \<and> ci_includes ''When is it?'' ''when''"
    by (simp add: followUpKeywords_def same_letter_def)
  from h when_is_it_no_keyword when_is_it_unrelated show ?thesis by blast
qed

lemma lower_pizza_open:
  "toLowerCase ''Are any good pizza restaurants open in London on Sunday?''
     = ''are any good pizza restaurants open in london on sunday?''"
  by (simp add: toLowerCase_def lower_unit_eq)

theorem long_unmatched_index_counterexample:
  "length ''Are any good pizza restaurants open in London on Sunday?'' > 50
   \<and> \<not> list_ex (ci_includes ''Are any good pizza restaurants open in London on Sunday?'')
         northstoweKeywords_index
   \<and> \<not> list_ex (ci_includes ''Are any good pizza restaurants open in London on Sunday?'')
         followUpKeywords
   \<and> isNorthstoweRelated_index ''Are any good pizza restaurants open in London on Sunday?''"
proof -
  have l: "length ''Are any good pizza restaurants open in London on Sunday?'' > 50"
    by simp
  have "\<not> list_ex (str_includes ''are any good pizza restaurants open in london on sunday?'')
         northstoweKeywords_index"
    by (simp add: northstoweKeywords_index_def)
  then have a: "\<not> list_ex (ci_includes ''Are any good pizza restaurants open in London on Sunday?'')
         northstoweKeywords_index"
    by (simp add: list_ex_ci_includes [OF plain_northstoweKeywords_index] lower_pizza_open)
  have "\<not> list_ex (str_includes ''are any good pizza restaurants open in london on sunday?'')
         followUpKeywords"
    by (simp add: followUpKeywords_def)
  then have b: "\<not> list_ex (ci_includes ''Are any good pizza restaurants open in London on Sunday?'')
         followUpKeywords"
    by (simp add: list_ex_ci_includes [OF plain_followUpKeywords] lower_pizza_open)
  have "regex_test (''are'', [''there'', ''any'', ''open''])
          ''Are any good pizza restaurants open in London on Sunday?''"
  proof (rule regex_test_here)
    have "dot_star_then [''there'', ''any'', ''open'']
            ''any good pizza restaurants open in London on Sunday?''"
      by (rule dot_star_here) (simp add: same_letter_def)
    then have "dot_star_then [''there'', ''any'', ''open'']
            '' any good pizza restaurants open in London on Sunday?''"
      by (rule dot_star_skip) (simp add: is_line_terminator_def)
    moreover have "ci_prefix ''are'' ''Are any good pizza restaurants open in London on Sunday?''"
      by (simp add: same_letter_def)
    ultimately show "match_here (''are'', [''there'', ''any'', ''open''])
            ''Are any good pizza restaurants open in London on Sunday?''"
      by (simp add: match_here_def)
  qed
  then have "list_ex (\<lambda>p. regex_test p ''Are any good pizza restaurants open in London on Sunday?'')
          localServicePatterns"
    by (simp add: localServicePatterns_def)
  then have c: "isNorthstoweRelated_index ''Are any good pizza restaurants open in London on Sunday?''"
    by (simp add: isNorthstoweRelated_index_iff)
  from l a b c show ?thesis by blast
qed


lemma regex_tests_heads:
  "list_ex (\<lambda>p. regex_test p q) ps \<Longrightarrow> list_ex (ci_includes q) (map fst ps)"
  by (induction ps) (auto dest: regex_test_head)

lemma lower_pizza_lunch:
  "toLowerCase ''Please recommend a good pizza restaurant in London for Sunday lunch''
     = ''please recommend a good pizza restaurant in london for sunday lunch''"
  by (simp add: toLowerCase_def lower_unit_eq)

theorem long_unmatched_is_unrelated_witness:
  "length ''Please recommend a good pizza restaurant in London for Sunday lunch'' > 50
   \<and> \<not> isNorthstoweRelated ''Please recommend a good pizza restaurant in London for Sunday lunch''
   \<and> \<not> isNorthstoweRelated_index
         ''Please recommend a good pizza restaurant in London for Sunday lunch''"
proof -
  let ?q = "''Please recommend a good pizza restaurant in London for Sunday lunch''"
  let ?l = "''please recommend a good pizza restaurant in london for sunday lunch''"
  have l: "length ?q > 50"
    by simp
  have "\<not> list_ex (str_includes ?l) northstoweKeywords"
    by (simp add: northstoweKeywords_def)
  then have a: "\<not> list_ex (ci_includes ?q) northstoweKeywords"
    by (simp add: list_ex_ci_includes [OF plain_northstoweKeywords] lower_pizza_lunch)
  have "\<not> list_ex (str_includes ?l) northstoweKeywords_index"
    by (simp add: northstoweKeywords_index_def)
  then have b: "\<not> list_ex (ci_includes ?q) northstoweKeywords_index"
    by (simp add: list_ex_ci_includes [OF plain_northstoweKeywords_index] lower_pizza_lunch)
  have "\<not> list_ex (str_includes ?l) followUpKeywords"
    by (simp add: followUpKeywords_def)
  then have c: "\<not> list_ex (ci_includes ?q) followUpKeywords"
    by (simp add: list_ex_ci_includes [OF plain_followUpKeywords] lower_pizza_lunch)
  have p: "list_all (list_all plain_unit) (map fst localServicePatterns)"
    by (simp add: localServicePatterns_def plain_unit_def)
  have "\<not> list_ex (str_includes ?l) (map fst localServicePatterns)"
    by (simp add: localServicePatterns_def)
  then have "\<not> list_ex (ci_includes ?q) (map fst localServicePatterns)"
    by (simp add: list_ex_ci_includes [OF p] lower_pizza_lunch)
  then have d: "\<not> list_ex (\<lambda>p. regex_test p ?q) localServicePatterns"
    using regex_tests_heads by blast
  from l a b c d long_unmatched_is_unrelated [of ?q] show ?thesis
    by blast
qed

section \<open>Properties of the query enhancer\<close>

lemma prefix_str_includes: "prefix sub s \<Longrightarrow> str_includes s sub"
  by (cases s) simp_all

lemma str_includes_append: "str_includes (q @ s) q"
  by (rule prefix_str_includes) simp

lemma appended_context:
  assumes "out = q @ s" and "s \<noteq> []"
  shows "prefix q out \<and> length q < length out \<and> str_includes out q"
  using assms by (simp add: str_includes_append)

lemma enhanceQueryForNorthstowe_687_cases:
  "enhanceQueryForNorthstowe_687 q \<in>
     {q @ '' Northstowe Town Council meeting schedule upcoming dates'',
      q @ '' Northstowe bin collection schedule next Friday'',
      q @ '' Northstowe bus transport timetable route'',
      q @ '' Northstowe opening times construction timeline'',
      q @ '' in Northstowe, Cambridgeshire, UK. Find specific current information, dates, times, schedules, contact details.''}"
  by (simp add: enhanceQueryForNorthstowe_687_def Let_def)

lemma enhanceQueryForNorthstowe_402_cases:
  "\<not> mentions_meeting q \<Longrightarrow>
   enhanceQueryForNorthstowe_402 d q \<in>
     {q @ '' Northstowe bin collection schedule next Friday'',
      q @ '' Northstowe bus transport timetable route'',
      q @ '' Northstowe opening times construction timeline'',
      q @ '' in Northstowe, Cambridgeshire, UK. Find specific current information, dates, times, schedules, contact details.''}"
  by (simp add: enhanceQueryForNorthstowe_402_def mentions_meeting_def Let_def)

text \<open>
  C9, as the code has it: the enhancer of \<^verbatim>\<open>chat.ts\<close> (and of the copy at line 845 of
  \<^verbatim>\<open>index.tsx\<close>) returns the query followed by its one fixed sentence of locality
  context. The enhancer of the copy at line 687 returns the query followed by one of its
  five fixed phrases. The enhancer of the copy at line 402 returns the query followed by
  one of the last four of these phrases for every query that mentions neither
  \<^verbatim>\<open>meeting\<close> nor \<^verbatim>\<open>council\<close>. In all these cases the output begins with the query,
  is strictly longer than it, and so contains it. For a query that mentions
  \<^verbatim>\<open>meeting\<close> or \<^verbatim>\<open>council\<close> the copy at line 402 returns a fixed site search
  followed by the current date, whatever the query.
\<close>

theorem enhanced_query_contains_query:
  \<open>(enhanceQueryForNorthstowe q = q @ '' in Northstowe, Cambridgeshire, UK. Northstowe is a new town development in South Cambridgeshire.''
     \<and> prefix q (enhanceQueryForNorthstowe q)
     \<and> length q < length (enhanceQueryForNorthstowe q)
     \<and> str_includes (enhanceQueryForNorthstowe q) q)
   \<and> (enhanceQueryForNorthstowe_687 q \<in>
         {q @ '' Northstowe Town Council meeting schedule upcoming dates'',
          q @ '' Northstowe bin collection schedule next Friday'',
          q @ '' Northstowe bus transport timetable route'',
          q @ '' Northstowe opening times construction timeline'',
          q @ '' in Northstowe, Cambridgeshire, UK. Find specific current information, dates, times, schedules, contact details.''}
     \<and> prefix q (enhanceQueryForNorthstowe_687 q)
     \<and> length q < length (enhanceQueryForNorthstowe_687 q)
     \<and> str_includes (enhanceQueryForNorthstowe_687 q) q)
   \<and> (\<not> mentions_meeting q \<longrightarrow>
         enhanceQueryForNorthstowe_402 d q \<in>
           {q @ '' Northstowe bin collection schedule next Friday'',
            q @ '' Northstowe bus transport timetable route'',
            q @ '' Northstowe opening times construction timeline'',
            q @ '' in Northstowe, Cambridgeshire, UK. Find specific current information, dates, times, schedules, contact details.''}
       \<and> prefix q (enhanceQueryForNorthstowe_402 d q)
       \<and> length q < length (enhanceQueryForNorthstowe_402 d q)
       \<and> str_includes (enhanceQueryForNorthstowe_402 d q) q)
   \<and> (mentions_meeting q' \<longrightarrow> enhanceQueryForNorthstowe_402 d q' =
         ''site:northstowetowncouncil.gov.uk Northstowe Town Council meeting agenda September 2024 2025 "23 September" "23rd September" "September 23" next upcoming meeting after '' @ d)\<close>
proof (intro conjI impI)
  have a: "enhanceQueryForNorthstowe q = q @ '' in Northstowe, Cambridgeshire, UK. Northstowe is a new town development in South Cambridgeshire.''"
    by (simp add: enhanceQueryForNorthstowe_def)
  then show "enhanceQueryForNorthstowe q = q @ '' in Northstowe, Cambridgeshire, UK. Northstowe is a new town development in South Cambridgeshire.''" .
  from a have "prefix q (enhanceQueryForNorthstowe q)
      \<and> length q < length (enhanceQueryForNorthstowe q)
      \<and> str_includes (enhanceQueryForNorthstowe q) q"
    by (rule appended_context) simp
  then show "prefix q (enhanceQueryForNorthstowe q)"
    and "length q < length (enhanceQueryForNorthstowe q)"
    and "str_includes (enhanceQueryForNorthstowe q) q"
    by simp_all
next
  show b: "enhanceQueryForNorthstowe_687 q \<in>
         {q @ '' Northstowe Town Council meeting schedule upcoming dates'',
          q @ '' Northstowe bin collection schedule next Friday'',
          q @ '' Northstowe bus transport timetable route'',
          q @ '' Northstowe opening times construction timeline'',
          q @ '' in Northstowe, Cambridgeshire, UK. Find specific current information, dates, times, schedules, contact details.''}"
    by (rule enhanceQueryForNorthstowe_687_cases)
  then obtain s where "enhanceQueryForNorthstowe_687 q = q @ s" and "s \<noteq> []"
    by auto
  then have "prefix q (enhanceQueryForNorthstowe_687 q)
      \<and> length q < length (enhanceQueryForNorthstowe_687 q)
      \<and> str_includes (enhanceQueryForNorthstowe_687 q) q"
    by (rule appended_context)
  then show "prefix q (enhanceQueryForNorthstowe_687 q)"
    and "length q < length (enhanceQueryForNorthstowe_687 q)"
    and "str_includes (enhanceQueryForNorthstowe_687 q) q"
    by simp_all
next
  assume n: "\<not> mentions_meeting q"
  then show c: "enhanceQueryForNorthstowe_402 d q \<in>
           {q @ '' Northstowe bin collection schedule next Friday'',
            q @ '' Northstowe bus transport timetable route'',
            q @ '' Northstowe opening times construction timeline'',
            q @ '' in Northstowe, Cambridgeshire, UK. Find specific current information, dates, times, schedules, contact details.''}"
    by (rule enhanceQueryForNorthstowe_402_cases)
  then obtain s where "enhanceQueryForNorthstowe_402 d q = q @ s" and "s \<noteq> []"
    by auto
  then have "prefix q (enhanceQueryForNorthstowe_402 d q)
      \<and> length q < length (enhanceQueryForNorthstowe_402 d q)
      \<and> str_includes (enhanceQueryForNorthstowe_402 d q) q"
    by (rule appended_context)
  then show "prefix q (enhanceQueryForNorthstowe_402 d q)"
    and "length q < length (enhanceQueryForNorthstowe_402 d q)"
    and "str_includes (enhanceQueryForNorthstowe_402 d q) q"
    by simp_all
next
  assume "mentions_meeting q'"
  then show \<open>enhanceQueryForNorthstowe_402 d q' =
         ''site:northstowetowncouncil.gov.uk Northstowe Town Council meeting agenda September 2024 2025 "23 September" "23rd September" "September 23" next upcoming meeting after '' @ d\<close>
    by (simp add: enhanceQueryForNorthstowe_402_def mentions_meeting_def Let_def)
qed

lemma lower_council_meeting:
  "toLowerCase ''When is the next council meeting?'' = ''when is the next council meeting?''"
  by (simp add: toLowerCase_def lower_unit_eq)

lemma lower_hairdresser:
  "toLowerCase ''Is there a hairdresser?'' = ''is there a hairdresser?''"
  by (simp add: toLowerCase_def lower_unit_eq)

theorem enhanced_query_contains_query_witness:
  \<open>prefix ''Is there a hairdresser?''
      (enhanceQueryForNorthstowe_402 ''03/11/2026'' ''Is there a hairdresser?'')
   \<and> length ''Is there a hairdresser?''
       < length (enhanceQueryForNorthstowe_402 ''03/11/2026'' ''Is there a hairdresser?'')
   \<and> str_includes (enhanceQueryForNorthstowe_402 ''03/11/2026'' ''Is there a hairdresser?'')
      ''Is there a hairdresser?''
   \<and> enhanceQueryForNorthstowe_402 ''03/11/2026'' ''When is the next council meeting?'' =
       ''site:northstowetowncouncil.gov.uk Northstowe Town Council meeting agenda September 2024 2025 "23 September" "23rd September" "September 23" next upcoming meeting after 03/11/2026''\<close>
proof -
  have a: "\<not> mentions_meeting ''Is there a hairdresser?''"
    by (simp add: mentions_meeting_def lower_hairdresser)
  have b: "mentions_meeting ''When is the next council meeting?''"
    by (simp add: mentions_meeting_def lower_council_meeting)
  note t = enhanced_query_contains_query
      [of "''Is there a hairdresser?''" "''03/11/2026''" "''When is the next council meeting?''"]
  from a t have p: "prefix ''Is there a hairdresser?''
      (enhanceQueryForNorthstowe_402 ''03/11/2026'' ''Is there a hairdresser?'')
   \<and> length ''Is there a hairdresser?''
       < length (enhanceQueryForNorthstowe_402 ''03/11/2026'' ''Is there a hairdresser?'')
   \<and> str_includes (enhanceQueryForNorthstowe_402 ''03/11/2026'' ''Is there a hairdresser?'')
      ''Is there a hairdresser?''"
    by blast
  from b t have e: \<open>enhanceQueryForNorthstowe_402 ''03/11/2026'' ''When is the next council meeting?'' =
       ''site:northstowetowncouncil.gov.uk Northstowe Town Council meeting agenda September 2024 2025 "23 September" "23rd September" "September 23" next upcoming meeting after '' @ ''03/11/2026''\<close>
    by blast
  from p e show ?thesis by simp
qed

theorem meeting_query_dropped_counterexample:
  "\<not> str_includes
       (enhanceQueryForNorthstowe_402 ''03/11/2026'' ''When is the next council meeting?'')
       ''When is the next council meeting?''"
  by (simp add: enhanceQueryForNorthstowe_402_def Let_def lower_council_meeting)

section \<open>Properties of the request handler\<close>

lemma handler_validated:
  assumes "method req = ''POST''"
    and "\<not> fst (isRateLimited now (getRateLimitKey req) store)"
    and "body req = Some (JString m)" and "m \<noteq> []"
  shows "handler ep upstream apiKey now req store =
    (let store' = snd (isRateLimited now (getRateLimitKey req) store) in
     if \<not> related ep m
     then (Sent 200 (ResponsePayload notRelatedText True), [], store')
     else case apiKey of
            None \<Rightarrow> (Sent 500 (ErrorPayload ''API key not configured'' False), [], store')
          | Some key \<Rightarrow>
              if key = []
              then (Sent 500 (ErrorPayload ''API key not configured'' False), [], store')
              else
                let call = upstream_call ep key m
                in (case upstream call of
                      Resolved None \<Rightarrow> (on_error None, [call], store')
                    | Resolved (Some choices) \<Rightarrow>
                        (case (case choices of [] \<Rightarrow> None | c # cs \<Rightarrow> c) of
                           None \<Rightarrow>
                             (Sent 500 (ErrorPayload ''No response from AI service'' False),
                              [call], store')
                         | Some aiResponse \<Rightarrow>
                             if aiResponse = []
                             then (Sent 500 (ErrorPayload ''No response from AI service'' False),
                                   [call], store')
                             else (Sent 200 (ResponsePayload aiResponse False), [call], store'))
                    | AxiosError status \<Rightarrow> (on_error status, [call], store')
                    | OtherError \<Rightarrow> (on_error None, [call], store')))"
  using assms by (simp add: handler_def Let_def case_prod_beta split: option.split)

text \<open>
  C6: a POST request that passes the rate gate and carries a non-empty string message
  which the filter of the endpoint rejects is answered with status 200, the canned
  refusal and \<^verbatim>\<open>notRelated: true\<close>, and no upstream request is issued. This holds for
  each copy of the endpoint, whatever its filter.
\<close>

theorem out_of_scope_refused:
  assumes "method req = ''POST''"
    and "\<not> fst (isRateLimited now (getRateLimitKey req) store)"
    and "body req = Some (JString m)" and "m \<noteq> []"
    and "\<not> related ep m"
  shows "fst (handler ep upstream apiKey now req store)
           = Sent 200 (ResponsePayload notRelatedText True)
       \<and> fst (snd (handler ep upstream apiKey now req store)) = []"
  using assms(5) by (simp add: handler_validated [OF assms(1-4)] Let_def)

lemma handler_calls_once:
  assumes "method req = ''POST''"
    and "\<not> fst (isRateLimited now (getRateLimitKey req) store)"
    and "body req = Some (JString m)" and "m \<noteq> []"
    and "related ep m" and "key \<noteq> []"
  shows "fst (snd (handler ep upstream (Some key) now req store)) = [upstream_call ep key m]"
  using assms(5,6)
  by (simp add: handler_validated [OF assms(1-4)] Let_def
      split: upstream_result.split option.split)

lemma handler_failure:
  assumes "method req = ''POST''"
    and "\<not> fst (isRateLimited now (getRateLimitKey req) store)"
    and "body req = Some (JString m)" and "m \<noteq> []"
    and "related ep m" and "key \<noteq> []"
    and "upstream (upstream_call ep key m) = AxiosError status"
  shows "fst (handler ep upstream (Some key) now req store) = on_error status"
  using assms(5,6,7) by (simp add: handler_validated [OF assms(1-4)] Let_def)

lemma handler_thrown:
  assumes "method req = ''POST''"
    and "\<not> fst (isRateLimited now (getRateLimitKey req) store)"
    and "body req = Some (JString m)" and "m \<noteq> []"
    and "related ep m" and "key \<noteq> []"
    and "upstream (upstream_call ep key m) = OtherError
         \<or> upstream (upstream_call ep key m) = Resolved None"
  shows "fst (handler ep upstream (Some key) now req store) = on_error None"
  using assms(5,6,7) by (auto simp add: handler_validated [OF assms(1-4)] Let_def)

text \<open>
  C7: for a POST request that passes the gate, the validation and the filter, with an API
  key configured: an upstream failure with status 401 is answered with 500 and the
  authentication message, 403 with 500 and the permission message, 429 with 429, and
  every other failure (an axios error with another status or without a response, any
  other error, a response without \<^verbatim>\<open>choices\<close>) with the generic 500. Whatever the
  upstream does, exactly one upstream request is issued: nothing is retried.
\<close>

theorem upstream_failure_mapping:
  assumes "method req = ''POST''"
    and "\<not> fst (isRateLimited now (getRateLimitKey req) store)"
    and "body req = Some (JString m)" and "m \<noteq> []"
    and "related ep m" and "key \<noteq> []"
  shows "(up401 (upstream_call ep key m) = AxiosError (Some 401)
          \<longrightarrow> fst (handler ep up401 (Some key) now req store)
              = Sent 500 (ErrorPayload
                  ''API authentication failed - check your Perplexity API key'' False))
      \<and> (up403 (upstream_call ep key m) = AxiosError (Some 403)
          \<longrightarrow> fst (handler ep up403 (Some key) now req store)
              = Sent 500 (ErrorPayload
                  ''API access forbidden - check your Perplexity API key permissions'' False))
      \<and> (up429 (upstream_call ep key m) = AxiosError (Some 429)
          \<longrightarrow> fst (handler ep up429 (Some key) now req store)
              = Sent 429 (ErrorPayload ''API rate limit exceeded. Please try again later.'' False))
      \<and> (upstream (upstream_call ep key m) = OtherError
           \<or> upstream (upstream_call ep key m) = Resolved None
           \<or> (upstream (upstream_call ep key m) = AxiosError status
               \<and> status \<notin> {Some 401, Some 403, Some 429})
          \<longrightarrow> fst (handler ep upstream (Some key) now req store)
              = Sent 500 (ErrorPayload ''Failed to get response. Please try again.'' False))
      \<and> (\<forall>u. fst (snd (handler ep u (Some key) now req store)) = [upstream_call ep key m])"
proof (intro conjI impI allI)
  assume "up401 (upstream_call ep key m) = AxiosError (Some 401)"
  from handler_failure [where upstream = up401 and status = "Some 401", OF assms this]
  show "fst (handler ep up401 (Some key) now req store)
      = Sent 500 (ErrorPayload ''API authentication failed - check your Perplexity API key'' False)"
    by (simp add: on_error_def)
next
  assume "up403 (upstream_call ep key m) = AxiosError (Some 403)"
  from handler_failure [where upstream = up403 and status = "Some 403", OF assms this]
  show "fst (handler ep up403 (Some key) now req store)
      = Sent 500 (ErrorPayload
          ''API access forbidden - check your Perplexity API key permissions'' False)"
    by (simp add: on_error_def)
next
  assume "up429 (upstream_call ep key m) = AxiosError (Some 429)"
  from handler_failure [where upstream = up429 and status = "Some 429", OF assms this]
  show "fst (handler ep up429 (Some key) now req store)
      = Sent 429 (ErrorPayload ''API rate limit exceeded. Please try again later.'' False)"
    by (simp add: on_error_def)
next
  assume a: "upstream (upstream_call ep key m) = OtherError
           \<or> upstream (upstream_call ep key m) = Resolved None
           \<or> (upstream (upstream_call ep key m) = AxiosError status
               \<and> status \<notin> {Some 401, Some 403, Some 429})"
  show "fst (handler ep upstream (Some key) now req store)
      = Sent 500 (ErrorPayload ''Failed to get response. Please try again.'' False)"
  proof (cases "upstream (upstream_call ep key m) = OtherError
           \<or> upstream (upstream_call ep key m) = Resolved None")
    case True
    from handler_thrown [where upstream = upstream, OF assms True] show ?thesis by (simp add: on_error_def)
  next
    case False
    with a have b: "upstream (upstream_call ep key m) = AxiosError status"
      and c: "status \<notin> {Some 401, Some 403, Some 429}" by auto
    from handler_failure [where upstream = upstream and status = status, OF assms b] c show ?thesis by (simp add: on_error_def)
  qed
next
  fix u
  show "fst (snd (handler ep u (Some key) now req store)) = [upstream_call ep key m]"
    by (rule handler_calls_once [OF assms])
qed

lemma getRateLimitKey_body [simp]: "getRateLimitKey (req\<lparr>body := b\<rparr>) = getRateLimitKey req"
  by (simp add: getRateLimitKey_def split: option.split)

text \<open>
  C10: a POST request that passes the rate gate and whose message is the empty string is
  answered with status 400 and \<^verbatim>\<open>Message is required\<close>, the very response that the same
  request gets with a message that is missing or not a string.
\<close>

theorem empty_message_rejected:
  assumes "method req = ''POST''"
    and "\<not> fst (isRateLimited now (getRateLimitKey req) store)"
    and "body req = Some (JString [])"
  shows "fst (handler ep upstream apiKey now req store)
           = Sent 400 (ErrorPayload ''Message is required'' False)
       \<and> (\<forall>v. typeof v \<noteq> ''string''
            \<longrightarrow> fst (handler ep upstream apiKey now (req\<lparr>body := Some v\<rparr>) store)
                = Sent 400 (ErrorPayload ''Message is required'' False))"
  using assms by (simp add: handler_def Let_def case_prod_beta)


lemma gate_passes_first_request:
  "\<not> fst (isRateLimited 1000
      (getRateLimitKey \<lparr>method = ''POST'', forwardedFor = Some ''10.0.0.7'',
                        remoteAddress = None, body = b\<rparr>) Map.empty)"
  by (simp add: isRateLimited_def)

theorem out_of_scope_refused_witness:
  "fst (handler chat_ts (\<lambda>c. OtherError) (Some ''pplx-key'') 1000
        \<lparr>method = ''POST'', forwardedFor = Some ''10.0.0.7'', remoteAddress = None,
         body = Some (JString ''When is it?'')\<rparr> Map.empty)
     = Sent 200 (ResponsePayload notRelatedText True)
   \<and> fst (snd (handler chat_ts (\<lambda>c. OtherError) (Some ''pplx-key'') 1000
        \<lparr>method = ''POST'', forwardedFor = Some ''10.0.0.7'', remoteAddress = None,
         body = Some (JString ''When is it?'')\<rparr> Map.empty)) = []"
proof -
  let ?req = "\<lparr>method = ''POST'', forwardedFor = Some ''10.0.0.7'', remoteAddress = None,
         body = Some (JString ''When is it?'')\<rparr>"
  have a: "method ?req = ''POST''" by simp
  have b: "\<not> fst (isRateLimited 1000 (getRateLimitKey ?req) Map.empty)"
    by (rule gate_passes_first_request)
  have c: "body ?req = Some (JString ''When is it?'')" by simp
  have d: "''When is it?'' \<noteq> []" by simp
  have e: "\<not> related chat_ts ''When is it?''"
    using when_is_it_unrelated by (simp add: chat_ts_def)
  show ?thesis
    by (rule out_of_scope_refused [OF a b c d e])
qed

lemma lower_gp_surgery:
  "toLowerCase ''Is there a GP surgery in Northstowe?'' = ''is there a gp surgery in northstowe?''"
  by (simp add: toLowerCase_def lower_unit_eq)

lemma gp_surgery_related: "isNorthstoweRelated ''Is there a GP surgery in Northstowe?''"
  by (simp add: isNorthstoweRelated_def Let_def lower_gp_surgery)

theorem upstream_failure_mapping_witness:
  "fst (handler chat_ts (\<lambda>c. AxiosError (Some 401)) (Some ''pplx-key'') 1000
        \<lparr>method = ''POST'', forwardedFor = Some ''10.0.0.7'', remoteAddress = None,
         body = Some (JString ''Is there a GP surgery in Northstowe?'')\<rparr> Map.empty)
     = Sent 500 (ErrorPayload ''API authentication failed - check your Perplexity API key'' False)
   \<and> fst (handler chat_ts (\<lambda>c. AxiosError (Some 403)) (Some ''pplx-key'') 1000
        \<lparr>method = ''POST'', forwardedFor = Some ''10.0.0.7'', remoteAddress = None,
         body = Some (JString ''Is there a GP surgery in Northstowe?'')\<rparr> Map.empty)
     = Sent 500 (ErrorPayload
         ''API access forbidden - check your Perplexity API key permissions'' False)
   \<and> fst (handler chat_ts (\<lambda>c. AxiosError (Some 429)) (Some ''pplx-key'') 1000
        \<lparr>method = ''POST'', forwardedFor = Some ''10.0.0.7'', remoteAddress = None,
         body = Some (JString ''Is there a GP surgery in Northstowe?'')\<rparr> Map.empty)
     = Sent 429 (ErrorPayload ''API rate limit exceeded. Please try again later.'' False)
   \<and> fst (handler chat_ts (\<lambda>c. AxiosError (Some 503)) (Some ''pplx-key'') 1000
        \<lparr>method = ''POST'', forwardedFor = Some ''10.0.0.7'', remoteAddress = None,
         body = Some (JString ''Is there a GP surgery in Northstowe?'')\<rparr> Map.empty)
     = Sent 500 (ErrorPayload ''Failed to get response. Please try again.'' False)
   \<and> fst (snd (handler chat_ts (\<lambda>c. AxiosError (Some 503)) (Some ''pplx-key'') 1000
        \<lparr>method = ''POST'', forwardedFor = Some ''10.0.0.7'', remoteAddress = None,
         body = Some (JString ''Is there a GP surgery in Northstowe?'')\<rparr> Map.empty))
     = [upstream_call chat_ts ''pplx-key'' ''Is there a GP surgery in Northstowe?'']"
proof -
  let ?req = "\<lparr>method = ''POST'', forwardedFor = Some ''10.0.0.7'', remoteAddress = None,
         body = Some (JString ''Is there a GP surgery in Northstowe?'')\<rparr>"
  have a: "method ?req = ''POST''" by simp
  have b: "\<not> fst (isRateLimited 1000 (getRateLimitKey ?req) Map.empty)"
    by (rule gate_passes_first_request)
  have c: "body ?req = Some (JString ''Is there a GP surgery in Northstowe?'')" by simp
  have d: "''Is there a GP surgery in Northstowe?'' \<noteq> []" by simp
  have e: "related chat_ts ''Is there a GP surgery in Northstowe?''"
    using gp_surgery_related by (simp add: chat_ts_def)
  have f: "''pplx-key'' \<noteq> []" by simp
  from upstream_failure_mapping [OF a b c d e f,
      where ?up401.0 = "\<lambda>c. AxiosError (Some 401)" and ?up403.0 = "\<lambda>c. AxiosError (Some 403)"
        and ?up429.0 = "\<lambda>c. AxiosError (Some 429)" and upstream = "\<lambda>c. AxiosError (Some 503)"
        and status = "Some 503"]
  show ?thesis by simp
qed

theorem empty_message_rejected_witness:
  "fst (handler chat_ts (\<lambda>c. OtherError) (Some ''pplx-key'') 1000
        \<lparr>method = ''POST'', forwardedFor = Some ''10.0.0.7'', remoteAddress = None,
         body = Some (JString [])\<rparr> Map.empty)
     = Sent 400 (ErrorPayload ''Message is required'' False)
   \<and> fst (handler chat_ts (\<lambda>c. OtherError) (Some ''pplx-key'') 1000
        \<lparr>method = ''POST'', forwardedFor = Some ''10.0.0.7'', remoteAddress = None,
         body = Some JUndefined\<rparr> Map.empty)
     = Sent 400 (ErrorPayload ''Message is required'' False)"
proof -
  let ?req = "\<lparr>method = ''POST'', forwardedFor = Some ''10.0.0.7'', remoteAddress = None,
         body = Some (JString [])\<rparr>"
  have a: "method ?req = ''POST''" by simp
  have b: "\<not> fst (isRateLimited 1000 (getRateLimitKey ?req) Map.empty)"
    by (rule gate_passes_first_request)
  have c: "body ?req = Some (JString [])" by simp
  have d: "typeof JUndefined \<noteq> ''string''" by simp
  from empty_message_rejected [OF a b c, of chat_ts "\<lambda>c. OtherError" "Some ''pplx-key''"] d
  show ?thesis by auto
qed

end
